theory Spec2Isabelle
  imports Main
begin

section \<open>Python values, classes and exceptions\<close>

text \<open>
  The exceptions of \<^verbatim>\<open>boson/db/sqlalchemy/api.py\<close>. \<open>TypeError\<close>, \<open>KeyError\<close> and
  \<open>Duplicate\<close> are raised by the source; \<open>AttributeError\<close> is what Python raises for
  \<^verbatim>\<open>x.id\<close> on a value without that attribute. The docstrings name \<open>TypeError\<close> for an
  invalid combination of arguments and \<open>KeyError\<close> for a missing row; the specification
  calls them InvalidArguments and NotFound. \<open>OverQuota\<close> is named by the specification
  only: no statement of the source raises it. \<open>StorageError\<close> is the failure of the
  store that section 7 of the specification has surfaced to the caller.
\<close>

datatype exn = TypeError | KeyError | AttributeError | Duplicate | OverQuota | StorageError

text \<open>The mapped classes of \<^verbatim>\<open>sa_models\<close> that the source names.\<close>

datatype cls = ServiceC | CategoryC | ResourceC | UsageC | QuotaC | ReservationC | ReservedItemC

text \<open>
  The values a caller passes: \<^verbatim>\<open>None\<close>, a string (a uuid or a name), a dictionary
  (\<^verbatim>\<open>auth_data\<close>, \<^verbatim>\<open>param_data\<close>; given by its items sorted by key, so that equal
  dictionaries are equal values) and an instance of a mapped class, of which the source
  only ever reads the \<^verbatim>\<open>id\<close> attribute.
\<close>

datatype pyval = PNone | PStr string | PDict "(string \<times> string) list" | PInst cls string

text \<open>An object is a class or a value; Python's \<^verbatim>\<open>isinstance\<close> takes one of each.\<close>

datatype pyobj = Class cls | Val pyval

text \<open>
  \<^verbatim>\<open>isinstance(obj, classinfo)\<close>: the second argument has to be a class, and Python raises
  \<^verbatim>\<open>TypeError: isinstance() arg 2 must be a class, type, or tuple of classes and types\<close>
  when it is a string, \<^verbatim>\<open>None\<close>, a dictionary or an instance. A mapped class is not an
  instance of another mapped class.
\<close>

fun isinstance :: "pyobj \<Rightarrow> pyobj \<Rightarrow> exn + bool" where
  "isinstance (Val (PInst c i)) (Class k) = Inr (c = k)"
| "isinstance obj (Class k) = Inr False"
| "isinstance obj (Val v) = Inl TypeError"

text \<open>Truth value of a Python value in a condition (\<^verbatim>\<open>if id and ...\<close>).\<close>

fun truthy :: "pyval \<Rightarrow> bool" where
  "truthy PNone = False"
| "truthy (PStr s) = (s \<noteq> [])"
| "truthy (PDict kvs) = (kvs \<noteq> [])"
| "truthy (PInst c i) = True"

text \<open>The attribute access \<^verbatim>\<open>v.id\<close>.\<close>

fun attr_id :: "pyval \<Rightarrow> exn + pyval" where
  "attr_id (PInst c i) = Inr (PStr i)"
| "attr_id v = Inl AttributeError"

text \<open>
  The two lines that open most operations,
  \<^verbatim>\<open>if isinstance(sa_models.K, v): v = v.id\<close>,
  with the class in first position and the caller's value in second, as the source has
  them. The result is the value of \<^verbatim>\<open>v\<close> after the two lines, or the exception raised.
\<close>

definition id_if_instance :: "cls \<Rightarrow> pyval \<Rightarrow> exn + pyval" where
  "id_if_instance k v =
     (case isinstance (Class k) (Val v) of
        Inl e \<Rightarrow> Inl e
      | Inr b \<Rightarrow> if b then attr_id v else Inr v)"

section \<open>Rows, tables and the session\<close>

text \<open>
  Modelled from the spec: \<^verbatim>\<open>boson/db/sqlalchemy/models.py\<close> is not among the sources
  read. Each row type has the attributes that the constructor calls of the source pass,
  and those of section 3 of the specification. An attribute that refers to another row
  holds the value the caller passed (Python does not type it). \<open>used\<close>, \<open>reserved\<close>,
  \<open>limit\<close> and \<open>status\<close> are \<open>None\<close> when the constructor call does not pass them.
\<close>

datatype status = PENDING | COMMITTED | ROLLED_BACK

record service =
  service_id :: string
  service_name :: string
  service_created_at :: nat
  service_updated_at :: nat
  service_auth_fields :: "string list"

record category =
  category_id :: string
  category_name :: string
  category_created_at :: nat
  category_updated_at :: nat
  category_service_id :: pyval
  category_usage_fset :: "string list"
  category_quota_fsets :: "string list list"

record resource =
  resource_id :: string
  resource_name :: string
  resource_parameters :: "string list"
  resource_created_at :: nat
  resource_updated_at :: nat
  resource_service_id :: pyval
  resource_category_id :: pyval
  resource_absolute :: bool

record usage =
  usage_id :: string
  usage_created_at :: nat
  usage_updated_at :: nat
  usage_parameter_data :: pyval
  usage_auth_data :: pyval
  usage_resource_id :: pyval
  usage_used :: "int option"
  usage_reserved :: "int option"
  usage_until_refresh :: int
  usage_refresh_id :: pyval

record quota =
  quota_id :: string
  quota_created_at :: nat
  quota_updated_at :: nat
  quota_resource_id :: pyval
  quota_auth_data :: pyval
  quota_limit :: "int option"

record reservation =
  reservation_id :: string
  reservation_created_at :: nat
  reservation_updated_at :: nat
  reservation_expire :: nat
  reservation_status :: "status option"

record reserved_item =
  reserved_item_id :: string
  reserved_item_created_at :: nat
  reserved_item_updated_at :: nat
  reserved_item_reservation_id :: pyval
  reserved_item_resource_id :: pyval
  reserved_item_usage_id :: pyval
  reserved_item_delta :: int

record db =
  services :: "service list"
  categories :: "category list"
  resources :: "resource list"
  usages :: "usage list"
  quotas :: "quota list"
  reservations :: "reservation list"
  reserved_items :: "reserved_item list"

text \<open>
  The context of a call. \<open>session\<close> is what \<^verbatim>\<open>context.session\<close> shows to a query: the
  committed rows and the changes of the open transaction (a query flushes what
  \<^verbatim>\<open>session.add\<close> queued). \<open>persisted\<close> is the database as of the last commit. \<open>log\<close> holds
  the exceptions that an \<^verbatim>\<open>except Exception as err: LOG.exception(err)\<close> clause caught,
  in order.
\<close>

record ctxt =
  persisted :: db
  session :: db
  log :: "exn list"

text \<open>
  The readings an operation takes from its environment: \<^verbatim>\<open>utils.generate_uuid()\<close> and
  the two calls of \<^verbatim>\<open>datetime.datetime.now()\<close>.
\<close>

record env =
  gen_uuid :: string
  now_created :: nat
  now_updated :: nat

text \<open>A raise inside \<^verbatim>\<open>try\<close> that the \<^verbatim>\<open>except Exception\<close> clause catches and logs.\<close>

definition swallow :: "exn \<Rightarrow> ctxt \<Rightarrow> ctxt" where
  "swallow e ctx = ctx\<lparr>log := log ctx @ [e]\<rparr>"

text \<open>\<^verbatim>\<open>query.first()\<close>: the first row of the table that passes the filters.\<close>

definition first :: "('r \<Rightarrow> bool) \<Rightarrow> 'r list \<Rightarrow> 'r option" where
  "first p rows = find p rows"

text \<open>
  The common end of the lookups: \<^verbatim>\<open>if row is None: try: raise KeyError(...) except
  Exception as err: LOG.exception(err)\<close>, \<^verbatim>\<open>else: return row\<close>.
\<close>

definition return_found :: "'r option \<Rightarrow> ctxt \<Rightarrow> (exn + 'r option) \<times> ctxt" where
  "return_found found ctx =
     (case found of
        None \<Rightarrow> (Inr None, swallow KeyError ctx)
      | Some r \<Rightarrow> (Inr (Some r), ctx))"

section \<open>Transactions\<close>






section \<open>Services\<close>

definition create_service ::
  "env \<Rightarrow> ctxt \<Rightarrow> string \<Rightarrow> string list \<Rightarrow> (exn + service) \<times> ctxt" where
  "create_service env ctx name auth_fields =
     (let found = first (\<lambda>r. service_name r = name) (services (session ctx));
          ctx1 = (if found \<noteq> None then swallow Duplicate ctx else ctx);
          new_service = \<lparr>service_id = gen_uuid env, service_name = name,
                         service_created_at = now_created env,
                         service_updated_at = now_updated env,
                         service_auth_fields = auth_fields\<rparr>
      in (Inr new_service,
          ctx1\<lparr>session := (session ctx1)\<lparr>services := services (session ctx1) @ [new_service]\<rparr>\<rparr>))"

text \<open>
  \<^verbatim>\<open>get_service(context, id=None, name=None)\<close>. \<^verbatim>\<open>id and name is not None\<close> is
  \<^verbatim>\<open>id and (name is not None)\<close>. Both \<^verbatim>\<open>raise TypeError\<close> and the \<^verbatim>\<open>raise KeyError\<close> stand
  inside a \<^verbatim>\<open>try\<close> whose \<^verbatim>\<open>except Exception\<close> clause logs; a function that ends without
  \<^verbatim>\<open>return\<close> returns \<^verbatim>\<open>None\<close>.
\<close>

definition get_service ::
  "ctxt \<Rightarrow> pyval \<Rightarrow> pyval \<Rightarrow> (exn + service option) \<times> ctxt" where
  "get_service ctx ident name =
     (let ctx1 = (if truthy ident \<and> name \<noteq> PNone then swallow TypeError ctx
                  else if truthy ident \<and> name = PNone then swallow TypeError ctx
                  else ctx);
          found = (if ident \<noteq> PNone
                   then first (\<lambda>r. PStr (service_id r) = ident) (services (session ctx1))
                   else first (\<lambda>r. PStr (service_name r) = name) (services (session ctx1)))
      in return_found found ctx1)"

section \<open>Categories\<close>

text \<open>
  \<^verbatim>\<open>create_category\<close> from its third line on (the query, the duplicate check, the insert),
  run with the value \<^verbatim>\<open>service\<close> has after the first two lines.
\<close>

definition create_category_body ::
  "env \<Rightarrow> ctxt \<Rightarrow> pyval \<Rightarrow> string \<Rightarrow> string list \<Rightarrow> string list list
     \<Rightarrow> (exn + category) \<times> ctxt" where
  "create_category_body env ctx service name usage_fset quota_fsets =
     (let found = first (\<lambda>r. category_name r = name \<and> category_service_id r = service)
                    (categories (session ctx));
          ctx1 = (if found \<noteq> None then swallow Duplicate ctx else ctx);
          new_category = \<lparr>category_id = gen_uuid env, category_name = name,
                          category_created_at = now_created env,
                          category_updated_at = now_updated env,
                          category_service_id = service,
                          category_usage_fset = usage_fset,
                          category_quota_fsets = quota_fsets\<rparr>
      in (Inr new_category,
          ctx1\<lparr>session := (session ctx1)\<lparr>categories := categories (session ctx1) @ [new_category]\<rparr>\<rparr>))"

definition create_category ::
  "env \<Rightarrow> ctxt \<Rightarrow> pyval \<Rightarrow> string \<Rightarrow> string list \<Rightarrow> string list list
     \<Rightarrow> (exn + category) \<times> ctxt" where
  "create_category env ctx service name usage_fset quota_fsets =
     (case id_if_instance ServiceC service of
        Inl e \<Rightarrow> (Inl e, ctx)
      | Inr service1 \<Rightarrow> create_category_body env ctx service1 name usage_fset quota_fsets)"

text \<open>
  \<^verbatim>\<open>get_category(context, id=None, service=None, name=None)\<close> has no \<^verbatim>\<open>isinstance\<close> line:
  it reads \<^verbatim>\<open>service.id\<close> as it builds the query, outside any \<^verbatim>\<open>try\<close>. The second filter
  is on \<^verbatim>\<open>sa_models.Service.id\<close>, so the query joins the two tables: a category of that
  name is found when some service has that id.
\<close>

definition get_category ::
  "ctxt \<Rightarrow> pyval \<Rightarrow> pyval \<Rightarrow> pyval \<Rightarrow> (exn + category option) \<times> ctxt" where
  "get_category ctx ident service name =
     (let ctx1 = (if truthy ident \<and> truthy name \<and> service \<noteq> PNone then swallow TypeError ctx
                  else if truthy ident \<and> truthy name \<and> service = PNone
                       then swallow TypeError ctx
                  else ctx)
      in if ident \<noteq> PNone
         then return_found
                (first (\<lambda>r. PStr (category_id r) = ident) (categories (session ctx1))) ctx1
         else (case attr_id service of
                 Inl e \<Rightarrow> (Inl e, ctx1)
               | Inr sid \<Rightarrow>
                   return_found
                     (if filter (\<lambda>s. PStr (service_id s) = sid) (services (session ctx1)) = []
                      then None
                      else first (\<lambda>r. PStr (category_name r) = name)
                             (categories (session ctx1)))
                     ctx1))"

section \<open>Resources\<close>

definition create_resource_body ::
  "env \<Rightarrow> ctxt \<Rightarrow> pyval \<Rightarrow> pyval \<Rightarrow> string \<Rightarrow> string list \<Rightarrow> bool
     \<Rightarrow> (exn + resource) \<times> ctxt" where
  "create_resource_body env ctx service category name parameters absolute =
     (let found = first (\<lambda>r. resource_name r = name \<and> resource_service_id r = service
                              \<and> resource_category_id r = category)
                    (resources (session ctx));
          ctx1 = (if found \<noteq> None then swallow Duplicate ctx else ctx);
          new_resource = \<lparr>resource_id = gen_uuid env, resource_name = name,
                          resource_parameters = parameters,
                          resource_created_at = now_created env,
                          resource_updated_at = now_updated env,
                          resource_service_id = service,
                          resource_category_id = category,
                          resource_absolute = absolute\<rparr>
      in (Inr new_resource,
          ctx1\<lparr>session := (session ctx1)\<lparr>resources := resources (session ctx1) @ [new_resource]\<rparr>\<rparr>))"

definition create_resource ::
  "env \<Rightarrow> ctxt \<Rightarrow> pyval \<Rightarrow> pyval \<Rightarrow> string \<Rightarrow> string list \<Rightarrow> bool
     \<Rightarrow> (exn + resource) \<times> ctxt" where
  "create_resource env ctx service category name parameters absolute =
     (case id_if_instance ServiceC service of
        Inl e \<Rightarrow> (Inl e, ctx)
      | Inr service1 \<Rightarrow>
          (case id_if_instance CategoryC category of
             Inl e \<Rightarrow> (Inl e, ctx)
           | Inr category1 \<Rightarrow>
               create_resource_body env ctx service1 category1 name parameters absolute))"

definition get_resource_body ::
  "ctxt \<Rightarrow> pyval \<Rightarrow> pyval \<Rightarrow> pyval \<Rightarrow> (exn + resource option) \<times> ctxt" where
  "get_resource_body ctx ident service name =
     (let ctx1 = (if truthy ident \<and> truthy name \<and> service \<noteq> PNone then swallow TypeError ctx
                  else if truthy ident \<and> truthy name \<and> service = PNone
                       then swallow TypeError ctx
                  else ctx)
      in return_found
           (if ident \<noteq> PNone
            then first (\<lambda>r. PStr (resource_id r) = ident) (resources (session ctx1))
            else first (\<lambda>r. PStr (resource_name r) = name \<and> resource_service_id r = service)
                   (resources (session ctx1)))
           ctx1)"

definition get_resource ::
  "ctxt \<Rightarrow> pyval \<Rightarrow> pyval \<Rightarrow> pyval \<Rightarrow> (exn + resource option) \<times> ctxt" where
  "get_resource ctx ident service name =
     (case id_if_instance ServiceC service of
        Inl e \<Rightarrow> (Inl e, ctx)
      | Inr service1 \<Rightarrow> get_resource_body ctx ident service1 name)"

section \<open>Usages\<close>

text \<open>
  \<^verbatim>\<open>create_usage\<close> from the query on. The call \<^verbatim>\<open>sa_models.Usage(id=..., created_at=...,
  updated_at=..., parameter_data=param_data, auth_data=auth_data, resource_id=resource,
  until_refresh=until_refresh, refresh_id=refresh_id)\<close> passes neither \<^verbatim>\<open>used\<close> nor
  \<^verbatim>\<open>reserved\<close>.
\<close>

definition create_usage_body ::
  "env \<Rightarrow> ctxt \<Rightarrow> pyval \<Rightarrow> pyval \<Rightarrow> pyval \<Rightarrow> int \<Rightarrow> int \<Rightarrow> int \<Rightarrow> pyval
     \<Rightarrow> (exn + usage) \<times> ctxt" where
  "create_usage_body env ctx resource param_data auth_data used reserved until_refresh refresh_id =
     (let found = first (\<lambda>r. usage_resource_id r = resource \<and> usage_auth_data r = auth_data
                              \<and> usage_parameter_data r = param_data)
                    (usages (session ctx));
          ctx1 = (if found \<noteq> None then swallow Duplicate ctx else ctx);
          new_usage = \<lparr>usage_id = gen_uuid env,
                       usage_created_at = now_created env,
                       usage_updated_at = now_updated env,
                       usage_parameter_data = param_data,
                       usage_auth_data = auth_data,
                       usage_resource_id = resource,
                       usage_used = None,
                       usage_reserved = None,
                       usage_until_refresh = until_refresh,
                       usage_refresh_id = refresh_id\<rparr>
      in (Inr new_usage,
          ctx1\<lparr>session := (session ctx1)\<lparr>usages := usages (session ctx1) @ [new_usage]\<rparr>\<rparr>))"

definition create_usage ::
  "env \<Rightarrow> ctxt \<Rightarrow> pyval \<Rightarrow> pyval \<Rightarrow> pyval \<Rightarrow> int \<Rightarrow> int \<Rightarrow> int \<Rightarrow> pyval
     \<Rightarrow> (exn + usage) \<times> ctxt" where
  "create_usage env ctx resource param_data auth_data used reserved until_refresh refresh_id =
     (case id_if_instance ResourceC resource of
        Inl e \<Rightarrow> (Inl e, ctx)
      | Inr resource1 \<Rightarrow>
          create_usage_body env ctx resource1 param_data auth_data used reserved
            until_refresh refresh_id)"



section \<open>Quotas\<close>

text \<open>
  Modelled from the spec: the constructors of the mapped classes are in
  \<^verbatim>\<open>boson/db/sqlalchemy/models.py\<close>, which is not among the sources read. \<^verbatim>\<open>create_quota\<close> and \<^verbatim>\<open>reserve\<close>
  pass the keyword \<^verbatim>\<open>resorce_id\<close>, and the rows have the attribute \<open>resource_id\<close>
  (section 3 of the specification). The constructor that SQLAlchemy's declarative base
  supplies raises TypeError for a keyword that is no attribute of the class
  (\<open>RejectUnknown\<close>); a class with a constructor of its own may store any keyword
  (\<open>KeepUnknown\<close>), and then \<open>resource_id\<close> is not set. Which of the two holds is a
  parameter of the two operations.
\<close>

datatype kwargs = RejectUnknown | KeepUnknown

definition create_quota_body ::
  "kwargs \<Rightarrow> env \<Rightarrow> ctxt \<Rightarrow> pyval \<Rightarrow> pyval \<Rightarrow> int option \<Rightarrow> (exn + quota) \<times> ctxt" where
  "create_quota_body kw env ctx resource auth_data limit =
     (let found = first (\<lambda>r. quota_resource_id r = resource \<and> quota_auth_data r = auth_data)
                    (quotas (session ctx));
          ctx1 = (if found \<noteq> None then swallow Duplicate ctx else ctx);
          new_quota = \<lparr>quota_id = gen_uuid env,
                       quota_created_at = now_created env,
                       quota_updated_at = now_updated env,
                       quota_resource_id = PNone,
                       quota_auth_data = auth_data,
                       quota_limit = limit\<rparr>
      in case kw of
           RejectUnknown \<Rightarrow> (Inl TypeError, ctx1)
         | KeepUnknown \<Rightarrow>
             (Inr new_quota,
              ctx1\<lparr>session := (session ctx1)\<lparr>quotas := quotas (session ctx1) @ [new_quota]\<rparr>\<rparr>))"

definition create_quota ::
  "kwargs \<Rightarrow> env \<Rightarrow> ctxt \<Rightarrow> pyval \<Rightarrow> pyval \<Rightarrow> int option \<Rightarrow> (exn + quota) \<times> ctxt" where
  "create_quota kw env ctx resource auth_data limit =
     (case id_if_instance ResourceC resource of
        Inl e \<Rightarrow> (Inl e, ctx)
      | Inr resource1 \<Rightarrow> create_quota_body kw env ctx resource1 auth_data limit)"



section \<open>Reservations\<close>

definition create_reservation :: "env \<Rightarrow> ctxt \<Rightarrow> nat \<Rightarrow> (exn + reservation) \<times> ctxt" where
  "create_reservation env ctx expire =
     (let new_reservation = \<lparr>reservation_id = gen_uuid env,
                             reservation_created_at = now_created env,
                             reservation_updated_at = now_updated env,
                             reservation_expire = expire,
                             reservation_status = None\<rparr>
      in (Inr new_reservation,
          ctx\<lparr>session := (session ctx)\<lparr>reservations := reservations (session ctx) @ [new_reservation]\<rparr>\<rparr>))"

text \<open>
  \<^verbatim>\<open>reserve\<close> from the constructor call on (lines 818 to 826): it builds the ReservedItem
  (keyword \<^verbatim>\<open>resorce_id\<close>) and adds it to the session. No table is read.
\<close>

definition reserve_body ::
  "kwargs \<Rightarrow> env \<Rightarrow> ctxt \<Rightarrow> pyval \<Rightarrow> pyval \<Rightarrow> pyval \<Rightarrow> int
     \<Rightarrow> (exn + reserved_item) \<times> ctxt" where
  "reserve_body kw env ctx reservation resource usage delta =
     (let new_reserved_items = \<lparr>reserved_item_id = gen_uuid env,
                                reserved_item_created_at = now_created env,
                                reserved_item_updated_at = now_updated env,
                                reserved_item_reservation_id = reservation,
                                reserved_item_resource_id = PNone,
                                reserved_item_usage_id = usage,
                                reserved_item_delta = delta\<rparr>
      in case kw of
           RejectUnknown \<Rightarrow> (Inl TypeError, ctx)
         | KeepUnknown \<Rightarrow>
             (Inr new_reserved_items,
              ctx\<lparr>session := (session ctx)\<lparr>reserved_items :=
                     reserved_items (session ctx) @ [new_reserved_items]\<rparr>\<rparr>))"

definition reserve ::
  "kwargs \<Rightarrow> env \<Rightarrow> ctxt \<Rightarrow> pyval \<Rightarrow> pyval \<Rightarrow> pyval \<Rightarrow> int
     \<Rightarrow> (exn + reserved_item) \<times> ctxt" where
  "reserve kw env ctx reservation resource usage delta =
     (case id_if_instance ReservationC reservation of
        Inl e \<Rightarrow> (Inl e, ctx)
      | Inr reservation1 \<Rightarrow>
          (case id_if_instance ResourceC resource of
             Inl e \<Rightarrow> (Inl e, ctx)
           | Inr resource1 \<Rightarrow>
               (case id_if_instance UsageC usage of
                  Inl e \<Rightarrow> (Inl e, ctx)
                | Inr usage1 \<Rightarrow> reserve_body kw env ctx reservation1 resource1 usage1 delta)))"

section \<open>The resolution of quotas as the specification words it\<close>



section \<open>An example ledger\<close>

text \<open>
  One service with one category (\<^verbatim>\<open>quota_fsets = [[tenant_id], []]\<close>) and one resource; a
  usage of tenant T1 with 4 used and 2 reserved; a quota of 5 for tenant T1 and a default
  quota of 10; one pending reservation holding one item of delta 2 against that usage. All of it
  is committed.
\<close>

definition nova :: service where
  "nova = \<lparr>service_id = ''s-1'', service_name = ''nova'', service_created_at = 1,
           service_updated_at = 1, service_auth_fields = [''tenant_id'']\<rparr>"

definition compute :: category where
  "compute = \<lparr>category_id = ''c-1'', category_name = ''compute'', category_created_at = 1,
              category_updated_at = 1, category_service_id = PStr ''s-1'',
              category_usage_fset = [''tenant_id''],
              category_quota_fsets = [[''tenant_id''], []]\<rparr>"

definition instances :: resource where
  "instances = \<lparr>resource_id = ''r-1'', resource_name = ''instances'',
                resource_parameters = [], resource_created_at = 1, resource_updated_at = 1,
                resource_service_id = PStr ''s-1'', resource_category_id = PStr ''c-1'',
                resource_absolute = False\<rparr>"

definition auth_t1 :: pyval where
  "auth_t1 = PDict [(''tenant_id'', ''T1'')]"

definition auth_t1_u1 :: pyval where
  "auth_t1_u1 = PDict [(''tenant_id'', ''T1''), (''user_id'', ''U1'')]"

definition usage_t1 :: usage where
  "usage_t1 = \<lparr>usage_id = ''u-1'', usage_created_at = 1, usage_updated_at = 1,
               usage_parameter_data = PDict [], usage_auth_data = auth_t1,
               usage_resource_id = PStr ''r-1'', usage_used = Some 4, usage_reserved = Some 2,
               usage_until_refresh = 0, usage_refresh_id = PNone\<rparr>"

definition quota_t1 :: quota where
  "quota_t1 = \<lparr>quota_id = ''q-1'', quota_created_at = 1, quota_updated_at = 1,
               quota_resource_id = PStr ''r-1'', quota_auth_data = auth_t1,
               quota_limit = Some 5\<rparr>"

definition quota_default :: quota where
  "quota_default = \<lparr>quota_id = ''q-2'', quota_created_at = 1, quota_updated_at = 1,
                    quota_resource_id = PStr ''r-1'', quota_auth_data = PDict [],
                    quota_limit = Some 10\<rparr>"

definition rsv :: reservation where
  "rsv = \<lparr>reservation_id = ''v-1'', reservation_created_at = 1, reservation_updated_at = 1,
          reservation_expire = 100, reservation_status = Some PENDING\<rparr>"

definition item :: reserved_item where
  "item = \<lparr>reserved_item_id = ''i-1'', reserved_item_created_at = 1,
           reserved_item_updated_at = 1, reserved_item_reservation_id = PStr ''v-1'',
           reserved_item_resource_id = PStr ''r-1'', reserved_item_usage_id = PStr ''u-1'',
           reserved_item_delta = 2\<rparr>"


definition ledger_db :: db where
  "ledger_db = \<lparr>services = [nova], categories = [compute], resources = [instances],
                usages = [usage_t1], quotas = [quota_t1, quota_default],
                reservations = [rsv], reserved_items = [item]\<rparr>"

definition ledger_ctx :: ctxt where
  "ledger_ctx = \<lparr>persisted = ledger_db, session = ledger_db, log = []\<rparr>"

text \<open>The same ledger with an open transaction: the item and its 2 reserved are not committed.\<close>

definition open_ctx :: ctxt where
  "open_ctx = \<lparr>persisted = ledger_db\<lparr>usages := [usage_t1\<lparr>usage_reserved := Some 0\<rparr>],
                                        reserved_items := []\<rparr>,
               session = ledger_db, log = []\<rparr>"

definition env2 :: env where
  "env2 = \<lparr>gen_uuid = ''x-2'', now_created = 2, now_updated = 2\<rparr>"

lemmas ledger_defs = ledger_ctx_def open_ctx_def ledger_db_def item_def rsv_def quota_default_def
  quota_t1_def usage_t1_def instances_def compute_def auth_t1_def auth_t1_u1_def nova_def env2_def

section \<open>Helper facts\<close>

text \<open>
  Every value a caller can pass (a record, a uuid, \<^verbatim>\<open>None\<close>, a dictionary) is no class, so
  the opening lines \<^verbatim>\<open>if isinstance(sa_models.K, v): v = v.id\<close> raise TypeError, and each
  operation that starts with them raises it before it reads or writes anything.
\<close>

lemma id_if_instance_raises: "id_if_instance k v = Inl TypeError"
  by (simp add: id_if_instance_def)

lemma reserve_raises:
  "reserve kw env ctx reservation resource usage delta = (Inl TypeError, ctx)"
  by (simp add: reserve_def id_if_instance_raises)



lemma create_usage_raises:
  "create_usage env ctx resource param_data auth_data used reserved until_refresh refresh_id
     = (Inl TypeError, ctx)"
  by (simp add: create_usage_def id_if_instance_raises)

lemma create_category_raises:
  "create_category env ctx service name usage_fset quota_fsets = (Inl TypeError, ctx)"
  by (simp add: create_category_def id_if_instance_raises)

lemma create_resource_raises:
  "create_resource env ctx service category name parameters absolute = (Inl TypeError, ctx)"
  by (simp add: create_resource_def id_if_instance_raises)



section \<open>Results\<close>

text \<open>
  C1, counterexample. In the example ledger the usage has 4 used and 2 reserved and the
  quotas are 5 and 10. \<^verbatim>\<open>reserve(context, 'v-1', 'r-1', 'u-1', 5)\<close> would bring the total to 11,
  above both limits, and the call does not fail with OverQuota: it raises TypeError at its
  first line, and its statements from line 818 on raise TypeError in the constructor or
  attach the item of delta 5. With delta \<open>-1\<close> (total 5, within both limits) nothing is
  attached by the call, and the statements from line 818 on leave \<open>reserved\<close> at 2.
\<close>

theorem reserve_over_quota_counterexample:
  "map usage_used (usages (session ledger_ctx)) = [Some 4]
   \<and> map usage_reserved (usages (session ledger_ctx)) = [Some 2]
   \<and> map quota_limit (quotas (session ledger_ctx)) = [Some 5, Some 10]
   \<and> reserve RejectUnknown env2 ledger_ctx (PStr ''v-1'') (PStr ''r-1'') (PStr ''u-1'') 5
       = (Inl TypeError, ledger_ctx)
   \<and> reserve KeepUnknown env2 ledger_ctx (PStr ''v-1'') (PStr ''r-1'') (PStr ''u-1'') 5
       = (Inl TypeError, ledger_ctx)
   \<and> reserve_body RejectUnknown env2 ledger_ctx (PStr ''v-1'') (PStr ''r-1'') (PStr ''u-1'') 5
       = (Inl TypeError, ledger_ctx)
   \<and> map reserved_item_delta (reserved_items (session (snd
         (reserve_body KeepUnknown env2 ledger_ctx (PStr ''v-1'') (PStr ''r-1'') (PStr ''u-1'') 5))))
       = [2, 5]
   \<and> reserve KeepUnknown env2 ledger_ctx (PStr ''v-1'') (PStr ''r-1'') (PStr ''u-1'') (- 1)
       = (Inl TypeError, ledger_ctx)
   \<and> map usage_reserved (usages (session (snd
         (reserve_body KeepUnknown env2 ledger_ctx (PStr ''v-1'') (PStr ''r-1'') (PStr ''u-1'') (- 1)))))
       = [Some 2]"
  by (simp add: reserve_raises reserve_body_def Let_def ledger_defs)

text \<open>
  C1, as amended. \<^verbatim>\<open>reserve\<close> makes no quota check and touches no Usage row: for every
  reservation, resource, usage and delta, whatever \<open>used + reserved + delta\<close> and the limit
  are, the call does not fail with OverQuota and every Usage row is as before
  (\<open>reserved\<close> is not incremented). The same holds of its statements from line 818 on.
\<close>

theorem reserve_makes_no_quota_check:
  "fst (reserve kw env ctx reservation resource usage delta) \<noteq> Inl OverQuota
   \<and> usages (session (snd (reserve kw env ctx reservation resource usage delta)))
       = usages (session ctx)
   \<and> fst (reserve_body kw env ctx reservation resource usage delta) \<noteq> Inl OverQuota
   \<and> usages (session (snd (reserve_body kw env ctx reservation resource usage delta)))
       = usages (session ctx)"
  by (cases kw) (simp_all add: reserve_raises reserve_body_def Let_def)

text \<open>
  C1, the amended claim at the example ledger with delta 5.
\<close>

theorem reserve_makes_no_quota_check_witness:
  "fst (reserve KeepUnknown env2 ledger_ctx (PStr ''v-1'') (PStr ''r-1'') (PStr ''u-1'') 5)
     \<noteq> Inl OverQuota
   \<and> usages (session (snd (reserve KeepUnknown env2 ledger_ctx (PStr ''v-1'') (PStr ''r-1'')
        (PStr ''u-1'') 5))) = usages (session ledger_ctx)
   \<and> fst (reserve_body KeepUnknown env2 ledger_ctx (PStr ''v-1'') (PStr ''r-1'') (PStr ''u-1'') 5)
       \<noteq> Inl OverQuota
   \<and> usages (session (snd (reserve_body KeepUnknown env2 ledger_ctx (PStr ''v-1'') (PStr ''r-1'')
        (PStr ''u-1'') 5))) = usages (session ledger_ctx)"
  by (rule reserve_makes_no_quota_check)







text \<open>
  C3 (the code departs from the claim). \<^verbatim>\<open>create_service\<close> with the name of an existing
  service does not fail with Duplicate: the exception is raised and caught on the spot,
  the call returns a new Service and the session holds two rows of that name.
  \<^verbatim>\<open>create_usage\<close> with the fingerprint of an existing usage raises TypeError at its first
  line; its statements from the query on catch the Duplicate likewise and add a second
  row.
\<close>

theorem create_duplicate_adds_row:
  "fst (create_service env2 ledger_ctx ''nova'' []) =
     Inr \<lparr>service_id = ''x-2'', service_name = ''nova'', service_created_at = 2,
          service_updated_at = 2, service_auth_fields = []\<rparr>
   \<and> map service_name (services (session (snd (create_service env2 ledger_ctx ''nova'' []))))
       = [''nova'', ''nova'']
   \<and> log (snd (create_service env2 ledger_ctx ''nova'' [])) = [Duplicate]
   \<and> create_usage env2 ledger_ctx (PStr ''r-1'') (PDict []) auth_t1 0 0 0 PNone
       = (Inl TypeError, ledger_ctx)
   \<and> map usage_id (usages (session (snd
         (create_usage_body env2 ledger_ctx (PStr ''r-1'') (PDict []) auth_t1 0 0 0 PNone))))
       = [''u-1'', ''x-2'']
   \<and> log (snd (create_usage_body env2 ledger_ctx (PStr ''r-1'') (PDict []) auth_t1 0 0 0 PNone))
       = [Duplicate]"
  by (simp add: create_service_def create_usage_raises create_usage_body_def first_def
      swallow_def Let_def ledger_defs)

text \<open>
  C4 (the code departs from the claim). \<^verbatim>\<open>get_service\<close> does not fail: with both id and
  name, with neither, and with an id that no row has, it returns \<^verbatim>\<open>None\<close>; the TypeError
  and the KeyError are raised and caught inside the function.
\<close>

theorem get_service_swallows_errors:
  "get_service ledger_ctx (PStr ''X'') (PStr ''Y'') =
     (Inr None, ledger_ctx\<lparr>log := [TypeError, KeyError]\<rparr>)
   \<and> get_service ledger_ctx PNone PNone = (Inr None, ledger_ctx\<lparr>log := [KeyError]\<rparr>)
   \<and> get_service ledger_ctx (PStr ''nonexistent'') PNone =
     (Inr None, ledger_ctx\<lparr>log := [TypeError, KeyError]\<rparr>)"
  by (simp add: get_service_def return_found_def first_def swallow_def Let_def ledger_defs)




text \<open>
  C7 (the code departs from the claim). \<^verbatim>\<open>create_usage(context, 'r-1', {}, {tenant_id: T1,
  user_id: U1}, used=5, reserved=2)\<close> raises TypeError at its first line. Its statements
  from the query on build the row without \<open>used\<close> and \<open>reserved\<close>: the row is the same
  for \<^verbatim>\<open>used=7, reserved=3\<close>.
\<close>

theorem create_usage_drops_used_and_reserved:
  "create_usage env2 ledger_ctx (PStr ''r-1'') (PDict []) auth_t1_u1 5 2 0 PNone
     = (Inl TypeError, ledger_ctx)
   \<and> fst (create_usage_body env2 ledger_ctx (PStr ''r-1'') (PDict []) auth_t1_u1 5 2 0 PNone)
     = Inr \<lparr>usage_id = ''x-2'', usage_created_at = 2, usage_updated_at = 2,
            usage_parameter_data = PDict [], usage_auth_data = auth_t1_u1,
            usage_resource_id = PStr ''r-1'', usage_used = None, usage_reserved = None,
            usage_until_refresh = 0, usage_refresh_id = PNone\<rparr>
   \<and> create_usage_body env2 ledger_ctx (PStr ''r-1'') (PDict []) auth_t1_u1 7 3 0 PNone
     = create_usage_body env2 ledger_ctx (PStr ''r-1'') (PDict []) auth_t1_u1 5 2 0 PNone"
  by (simp add: create_usage_raises create_usage_body_def first_def Let_def ledger_defs)

text \<open>
  C8 (the code departs from the claim). \<^verbatim>\<open>create_category\<close>, \<^verbatim>\<open>create_resource\<close> and
  \<^verbatim>\<open>reserve\<close> raise TypeError for a record and for a bare id alike, before any lookup;
  \<^verbatim>\<open>get_category\<close> returns the category when the service is a record and raises
  AttributeError when it is the bare id.
\<close>

theorem object_or_id_arguments_raise:
  "create_category env2 ledger_ctx (PInst ServiceC ''s-1'') ''network'' [] [[]]
     = (Inl TypeError, ledger_ctx)
   \<and> create_category env2 ledger_ctx (PStr ''s-1'') ''network'' [] [[]]
     = (Inl TypeError, ledger_ctx)
   \<and> create_resource env2 ledger_ctx (PStr ''s-1'') (PInst CategoryC ''c-1'') ''cores'' [] False
     = (Inl TypeError, ledger_ctx)
   \<and> reserve KeepUnknown env2 ledger_ctx (PInst ReservationC ''v-1'') (PStr ''r-1'')
       (PInst UsageC ''u-1'') 1
     = (Inl TypeError, ledger_ctx)
   \<and> get_category ledger_ctx PNone (PInst ServiceC ''s-1'') (PStr ''compute'')
     = (Inr (Some compute), ledger_ctx)
   \<and> get_category ledger_ctx PNone (PStr ''s-1'') (PStr ''compute'')
     = (Inl AttributeError, ledger_ctx)"
  by (simp add: create_category_raises create_resource_raises reserve_raises get_category_def
      return_found_def first_def Let_def ledger_defs)

text \<open>
  C9 (the code departs from the claim). \<^verbatim>\<open>reserve(context, 'v-1', 'r-1', 'u-1', 1)\<close>
  creates no item: it raises TypeError at its first line. Its statements from line 818 on
  pass the resource as keyword \<^verbatim>\<open>resorce_id\<close>: the constructor rejects it, or the item's
  \<open>resource_id\<close> stays unset while the usage's is \<^verbatim>\<open>'r-1'\<close>.
\<close>

theorem reserve_does_not_record_resource_id:
  "reserve RejectUnknown env2 ledger_ctx (PStr ''v-1'') (PStr ''r-1'') (PStr ''u-1'') 1
     = (Inl TypeError, ledger_ctx)
   \<and> reserve KeepUnknown env2 ledger_ctx (PStr ''v-1'') (PStr ''r-1'') (PStr ''u-1'') 1
     = (Inl TypeError, ledger_ctx)
   \<and> reserve_body RejectUnknown env2 ledger_ctx (PStr ''v-1'') (PStr ''r-1'') (PStr ''u-1'') 1
     = (Inl TypeError, ledger_ctx)
   \<and> fst (reserve_body KeepUnknown env2 ledger_ctx (PStr ''v-1'') (PStr ''r-1'') (PStr ''u-1'') 1)
     = Inr \<lparr>reserved_item_id = ''x-2'', reserved_item_created_at = 2,
            reserved_item_updated_at = 2, reserved_item_reservation_id = PStr ''v-1'',
            reserved_item_resource_id = PNone, reserved_item_usage_id = PStr ''u-1'',
            reserved_item_delta = 1\<rparr>
   \<and> map usage_resource_id (usages (session ledger_ctx)) = [PStr ''r-1'']"
  by (simp add: reserve_raises reserve_body_def Let_def ledger_defs)


end
